theory Spec2Isabelle
  imports Main "HOL-Library.AList"
begin

section \<open>The Elastic Beanstalk registry of \<^verbatim>\<open>moto/elasticbeanstalk/models.py\<close>\<close>

text \<open>
  The module keeps, per region, a backend object holding a dictionary of applications;
  each application holds a dictionary of environments; each environment holds a list of
  tags. The model is a shallow embedding with explicit state passing:

  \<^item> a Python \<^verbatim>\<open>dict\<close> is an association list in insertion order. Looking a key up
    is \<open>map_of\<close>; storing under a key is \<open>AList.update\<close>, which overwrites the entry
    of a key that is present where it stands and appends a new key at the end, as an
    insertion-ordered dictionary does;
  \<^item> every method takes the state it reads and returns its outcome together with the
    state it may have changed: the backend for the methods that create or reset, the
    store of tag objects for \<^verbatim>\<open>update_tags_for_resource\<close>. The outcome is \<open>Inl\<close> of the
    exception raised or \<open>Inr\<close> of the value returned;
  \<^item> the back-references \<^verbatim>\<open>Environment.application\<close> and \<^verbatim>\<open>Application.backend\<close>
    are weak proxies to the owner. An environment is only ever stored in the dictionary
    of the application that built it, and an application in the dictionary of the
    backend that built it, so the properties that read through them take the owner as
    an argument;
  \<^item> the tag dictionaries and the tag lists are objects that a caller builds and hands
    in, and that the module keeps and mutates in place. They live in a store addressed by
    references, so that an object reached along two paths is one object: an environment
    holds the reference to its tag list, and a tag list holds references to tag
    dictionaries.

  \<^verbatim>\<open>make_arn\<close> (from \<^verbatim>\<open>utils.py\<close>) and \<^verbatim>\<open>ACCOUNT_ID\<close> (from \<^verbatim>\<open>moto.core\<close>) are not
  part of this module; the functions that use them take them as parameters.
\<close>

subsection \<open>Exceptions\<close>

text \<open>
  \<open>InvalidParameterValueError\<close> and \<open>ResourceNotFoundException\<close> are the two exception
  classes the module imports; each carries the message it was raised with, if any
  (line 48 raises the bare class, without a message). \<open>KeyError\<close> is the internal signal
  of \<^verbatim>\<open>_find_environment_by_arn\<close>; \<open>TypeError\<close> is what Python raises when \<^verbatim>\<open>None\<close> is
  iterated.
\<close>

datatype error =
    InvalidParameterValueError "string option"
  | ResourceNotFoundException string
  | KeyError
  | TypeError

fun is_InvalidParameterValueError :: "error + 'a \<Rightarrow> bool" where
  "is_InvalidParameterValueError (Inl (InvalidParameterValueError m)) = True"
| "is_InvalidParameterValueError r = False"

fun is_ResourceNotFoundException :: "error + 'a \<Rightarrow> bool" where
  "is_ResourceNotFoundException (Inl (ResourceNotFoundException m)) = True"
| "is_ResourceNotFoundException r = False"

subsection \<open>Data\<close>

text \<open>A tag is a dictionary with the two keys \<^verbatim>\<open>"key"\<close> and \<^verbatim>\<open>"value"\<close>.\<close>

record tag =
  tag_key :: string
  tag_value :: string

text \<open>
  The store: the tag dictionary and the tag list found at each reference. A tag list holds
  references, so the same dictionary can occur in it twice, or in two lists.
\<close>

type_synonym ref = nat

record heap =
  dict_at :: "ref \<Rightarrow> tag"
  list_at :: "ref \<Rightarrow> ref list"

text \<open>
  \<^verbatim>\<open>EBBackend.create_environment\<close> declares \<^verbatim>\<open>environment_name=None, stack_name=None,
  tags=None\<close>, so these three attributes of an environment are optional values. The tag
  field is \<^verbatim>\<open>None\<close> or the list object the caller passed, kept by reference.
\<close>

record Environment =
  environment_name :: "string option"
  solution_stack_name :: "string option"
  tags :: "ref option"

record Application =
  application_name :: string
  environments :: "(string option \<times> Environment) list"

record EBBackend =
  region :: string
  applications :: "(string \<times> Application) list"

text \<open>\<^verbatim>\<open>k in d\<close> for a dictionary \<open>d\<close>.\<close>

definition dict_contains :: "('k \<times> 'v) list \<Rightarrow> 'k \<Rightarrow> bool" where
  "dict_contains d k = (map_of d k \<noteq> None)"

text \<open>\<^verbatim>\<open>"%s" % x\<close> and \<^verbatim>\<open>"{}".format(x)\<close> for an optional string: \<^verbatim>\<open>None\<close> prints as its name.\<close>

fun py_str :: "string option \<Rightarrow> string" where
  "py_str None = ''None''"
| "py_str (Some s) = s"

subsection \<open>Environment and Application properties\<close>

text \<open>\<^verbatim>\<open>Environment.application_name\<close>, read through the owning application.\<close>

definition Environment_application_name :: "Application \<Rightarrow> Environment \<Rightarrow> string" where
  "Environment_application_name app env = application_name app"

text \<open>\<^verbatim>\<open>Application.region\<close> and \<^verbatim>\<open>Environment.region\<close>, read through the owning backend.\<close>

definition Application_region :: "EBBackend \<Rightarrow> Application \<Rightarrow> string" where
  "Application_region b app = region b"

definition Environment_region :: "EBBackend \<Rightarrow> Application \<Rightarrow> Environment \<Rightarrow> string" where
  "Environment_region b app env = Application_region b app"

text \<open>\<^verbatim>\<open>Environment.environment_arn\<close> (lines 24-27).\<close>

definition environment_arn ::
  "(string \<Rightarrow> string \<Rightarrow> string \<Rightarrow> string \<Rightarrow> string) \<Rightarrow> string \<Rightarrow>
   EBBackend \<Rightarrow> Application \<Rightarrow> Environment \<Rightarrow> string" where
  "environment_arn make_arn ACCOUNT_ID b app env =
     (let resource_path =
        Environment_application_name app env @ ''/'' @ py_str (environment_name env)
      in make_arn (Environment_region b app env) ACCOUNT_ID ''environment'' resource_path)"

text \<open>\<^verbatim>\<open>Environment.platform_arn\<close> (lines 29-31).\<close>

definition platform_arn :: "Environment \<Rightarrow> string" where
  "platform_arn env = ''TODO''"

text \<open>\<^verbatim>\<open>Application.arn\<close> (lines 64-66).\<close>

definition Application_arn ::
  "(string \<Rightarrow> string \<Rightarrow> string \<Rightarrow> string \<Rightarrow> string) \<Rightarrow> string \<Rightarrow>
   EBBackend \<Rightarrow> Application \<Rightarrow> string" where
  "Application_arn make_arn ACCOUNT_ID b app =
     make_arn (Application_region b app) ACCOUNT_ID ''application'' (application_name app)"

subsection \<open>Application.create_environment (lines 44-58)\<close>

definition Application_create_environment ::
  "Application \<Rightarrow> string option \<Rightarrow> string option \<Rightarrow> ref option \<Rightarrow>
   (error + Environment) \<times> Application" where
  "Application_create_environment app env_name stack tgs =
     (if dict_contains (environments app) env_name
      then (Inl (InvalidParameterValueError None), app)
      else
        let env = \<lparr>environment_name = env_name, solution_stack_name = stack, tags = tgs\<rparr>
        in (Inr env, app\<lparr>environments := AList.update env_name env (environments app)\<rparr>))"

subsection \<open>EBBackend\<close>

text \<open>\<^verbatim>\<open>EBBackend.__init__\<close> (lines 70-72).\<close>

definition EBBackend_init :: "string \<Rightarrow> EBBackend" where
  "EBBackend_init r = \<lparr>region = r, applications = []\<rparr>"

text \<open>
  \<^verbatim>\<open>EBBackend.reset\<close> (lines 74-79). The region is read first; \<^verbatim>\<open>_reset_model_refs\<close>
  belongs to the base class and clears its per-class instance lists; then the attribute
  dictionary of the backend is replaced by an empty one and \<^verbatim>\<open>__init__\<close> runs again
  with the saved region, so nothing that was an attribute before the call survives.
\<close>

definition reset :: "EBBackend \<Rightarrow> EBBackend" where
  "reset b = (let r = region b in EBBackend_init r)"

text \<open>\<^verbatim>\<open>EBBackend.create_application\<close> (lines 90-97).\<close>

definition create_application ::
  "EBBackend \<Rightarrow> string \<Rightarrow> (error + Application) \<times> EBBackend" where
  "create_application b app_name =
     (if dict_contains (applications b) app_name
      then (Inl (InvalidParameterValueError
                   (Some (''Application '' @ app_name @ '' already exists.''))), b)
      else
        let new_app = \<lparr>application_name = app_name, environments = []\<rparr>
        in (Inr new_app, b\<lparr>applications := AList.update app_name new_app (applications b)\<rparr>))"

text \<open>\<^verbatim>\<open>EBBackend.describe_applications\<close> (lines 99-100).\<close>

definition describe_applications :: "EBBackend \<Rightarrow> Application list" where
  "describe_applications b = map snd (applications b)"

text \<open>
  \<^verbatim>\<open>EBBackend.create_environment\<close> (lines 102-116). The application object is mutated
  by its own \<^verbatim>\<open>create_environment\<close>; the model stores the mutated application back
  under the key it was read from.
\<close>

definition create_environment ::
  "EBBackend \<Rightarrow> string \<Rightarrow> string option \<Rightarrow> string option \<Rightarrow> ref option \<Rightarrow>
   (error + Environment) \<times> EBBackend" where
  "create_environment b app_name env_name stack_name tgs =
     (case map_of (applications b) app_name of
        None \<Rightarrow>
          (Inl (InvalidParameterValueError
                  (Some (''No Application named '' @ [CHR 0x27] @ app_name @ [CHR 0x27]
                         @ '' found.''))), b)
      | Some app \<Rightarrow>
          (case Application_create_environment app env_name stack_name tgs of
             (r, app') \<Rightarrow>
               (r, b\<lparr>applications := AList.update app_name app' (applications b)\<rparr>)))"

text \<open>\<^verbatim>\<open>EBBackend.describe_environments\<close> (lines 118-123).\<close>

definition describe_environments :: "EBBackend \<Rightarrow> Environment list" where
  "describe_environments b =
     concat (map (\<lambda>app. map snd (environments app)) (map snd (applications b)))"

text \<open>
  \<^verbatim>\<open>EBBackend._find_environment_by_arn\<close> (lines 158-163). The outer loop runs over the
  keys of the application dictionary and reads each application back by its key; the
  inner loop runs over the environments of that application and returns at the first
  one whose ARN is the one asked for. The result stands for the reference to that
  environment: the key of its application, its own key, and its value.
\<close>

fun find_environment_loop ::
  "(string \<Rightarrow> string \<Rightarrow> string \<Rightarrow> string \<Rightarrow> string) \<Rightarrow> string \<Rightarrow> EBBackend \<Rightarrow> string \<Rightarrow>
   string list \<Rightarrow> error + (string \<times> string option \<times> Environment)" where
  "find_environment_loop make_arn ACCOUNT_ID b arn [] = Inl KeyError"
| "find_environment_loop make_arn ACCOUNT_ID b arn (k # ks) =
     (case map_of (applications b) k of
        None \<Rightarrow> Inl KeyError
      | Some app \<Rightarrow>
          (case List.find (\<lambda>(ek, env). environment_arn make_arn ACCOUNT_ID b app env = arn)
                  (environments app) of
             Some (ek, env) \<Rightarrow> Inr (k, ek, env)
           | None \<Rightarrow> find_environment_loop make_arn ACCOUNT_ID b arn ks))"

definition find_environment_by_arn ::
  "(string \<Rightarrow> string \<Rightarrow> string \<Rightarrow> string \<Rightarrow> string) \<Rightarrow> string \<Rightarrow> EBBackend \<Rightarrow> string \<Rightarrow>
   error + (string \<times> string option \<times> Environment)" where
  "find_environment_by_arn make_arn ACCOUNT_ID b arn =
     find_environment_loop make_arn ACCOUNT_ID b arn (map fst (applications b))"

text \<open>
  One pass of the first loop of \<^verbatim>\<open>update_tags_for_resource\<close> (lines 138-142), for the tag
  list at reference \<open>l\<close> and the tag dictionary at reference \<open>r\<close> that the iteration
  yields. \<^verbatim>\<open>next(...)\<close> returns the first dictionary of the list whose key is that of the
  tag. When there is none, the list object gets the reference \<open>r\<close> itself appended;
  otherwise the dictionary found is assigned the value of the tag, in the store, so every
  occurrence of that dictionary shows the new value.
\<close>

definition add_tag :: "heap \<Rightarrow> ref \<Rightarrow> ref \<Rightarrow> heap" where
  "add_tag h l r =
     (case List.find (\<lambda>t. tag_key (dict_at h t) = tag_key (dict_at h r)) (list_at h l) of
        None \<Rightarrow> h\<lparr>list_at := (list_at h)(l := list_at h l @ [r])\<rparr>
      | Some existing_tag \<Rightarrow>
          h\<lparr>dict_at := (dict_at h)
               (existing_tag := (dict_at h existing_tag)\<lparr>tag_value := tag_value (dict_at h r)\<rparr>)\<rparr>)"

text \<open>
  The loop itself (line 137) over the references that iterating \<^verbatim>\<open>tags_to_add\<close> yields.
  Evaluating \<^verbatim>\<open>res.tags\<close> as an iterable raises \<open>TypeError\<close> when the field is \<^verbatim>\<open>None\<close>.
  The list being iterated keeps its elements during the loop: only the tag list of the
  environment is ever appended to, and if that is the list being iterated, each tag it
  yields is found in it and nothing is appended.
\<close>

fun add_tags_loop :: "heap \<Rightarrow> ref option \<Rightarrow> ref list \<Rightarrow> (error + unit) \<times> heap" where
  "add_tags_loop h tgs [] = (Inr (), h)"
| "add_tags_loop h None (r # rest) = (Inl TypeError, h)"
| "add_tags_loop h (Some l) (r # rest) = add_tags_loop (add_tag h l r) (Some l) rest"

text \<open>
  \<^verbatim>\<open>list.remove(x)\<close> deletes the first element that is \<open>x\<close> or equals it; dictionaries
  are equal when their contents are. It is only called with an element that
  \<^verbatim>\<open>next(...)\<close> has just taken from the same list, so the element is there.
\<close>

fun list_remove :: "heap \<Rightarrow> ref \<Rightarrow> ref list \<Rightarrow> ref list" where
  "list_remove h x [] = []"
| "list_remove h x (y # ys) =
     (if y = x \<or> dict_at h y = dict_at h x then ys else y # list_remove h x ys)"

text \<open>One pass of the second loop (lines 145-147), and the loop (line 144).\<close>

definition remove_tag :: "heap \<Rightarrow> ref \<Rightarrow> string \<Rightarrow> heap" where
  "remove_tag h l k =
     (case List.find (\<lambda>t. tag_key (dict_at h t) = k) (list_at h l) of
        None \<Rightarrow> h
      | Some existing_tag \<Rightarrow>
          h\<lparr>list_at := (list_at h)(l := list_remove h existing_tag (list_at h l))\<rparr>)"

fun remove_tags_loop :: "heap \<Rightarrow> ref option \<Rightarrow> string list \<Rightarrow> (error + unit) \<times> heap" where
  "remove_tags_loop h tgs [] = (Inr (), h)"
| "remove_tags_loop h None (k # rest) = (Inl TypeError, h)"
| "remove_tags_loop h (Some l) (k # rest) = remove_tags_loop (remove_tag h l k) (Some l) rest"

text \<open>
  \<^verbatim>\<open>EBBackend.update_tags_for_resource\<close> (lines 129-147). It changes tag objects only: the
  registry, which holds the environment and through it the reference to the tag list, is
  the same before and after, so the outcome comes with the store after the call.
\<close>

definition update_tags_for_resource ::
  "(string \<Rightarrow> string \<Rightarrow> string \<Rightarrow> string \<Rightarrow> string) \<Rightarrow> string \<Rightarrow> heap \<Rightarrow> EBBackend \<Rightarrow> string \<Rightarrow>
   ref list \<Rightarrow> string list \<Rightarrow> (error + unit) \<times> heap" where
  "update_tags_for_resource make_arn ACCOUNT_ID h b resource_arn tags_to_add tags_to_remove =
     (case find_environment_by_arn make_arn ACCOUNT_ID b resource_arn of
        Inl KeyError \<Rightarrow>
          (Inl (ResourceNotFoundException
                  (''Resource not found for ARN '' @ [CHR 0x27] @ resource_arn @ [CHR 0x27]
                   @ ''.'')), h)
      | Inl e \<Rightarrow> (Inl e, h)
      | Inr (ak, ek, res) \<Rightarrow>
          (case add_tags_loop h (tags res) tags_to_add of
             (Inl e, h') \<Rightarrow> (Inl e, h')
           | (Inr u, h') \<Rightarrow> remove_tags_loop h' (tags res) tags_to_remove))"

text \<open>
  What a tag list shows when it is read: the dictionaries it refers to, in order.
\<close>

definition tag_values :: "heap \<Rightarrow> ref \<Rightarrow> tag list" where
  "tag_values h l = map (dict_at h) (list_at h l)"

text \<open>
  \<^verbatim>\<open>EBBackend.list_tags_for_resource\<close> (lines 149-156). \<^verbatim>\<open>"ResourceTags"\<close> is the tag
  field itself, the reference to the live list.
\<close>

definition list_tags_for_resource ::
  "(string \<Rightarrow> string \<Rightarrow> string \<Rightarrow> string \<Rightarrow> string) \<Rightarrow> string \<Rightarrow> EBBackend \<Rightarrow> string \<Rightarrow>
   error + (string \<times> ref option)" where
  "list_tags_for_resource make_arn ACCOUNT_ID b resource_arn =
     (case find_environment_by_arn make_arn ACCOUNT_ID b resource_arn of
        Inl KeyError \<Rightarrow>
          Inl (ResourceNotFoundException
                 (''Resource not found for ARN '' @ [CHR 0x27] @ resource_arn @ [CHR 0x27]
                  @ ''.''))
      | Inl e \<Rightarrow> Inl e
      | Inr (ak, ek, res) \<Rightarrow> Inr (resource_arn, tags res))"

subsection \<open>Well-formed states, scan order, reachable states\<close>

text \<open>An association list stands for a dictionary when no key occurs twice.\<close>

definition is_dict :: "('k \<times> 'v) list \<Rightarrow> bool" where
  "is_dict d = distinct (map fst d)"

definition wf_backend :: "EBBackend \<Rightarrow> bool" where
  "wf_backend b =
     (is_dict (applications b) \<and> (\<forall>(k, app) \<in> set (applications b). is_dict (environments app)))"

text \<open>
  Every stored environment with the keys it is stored under and its owner, in the order
  of \<open>describe_environments\<close>: applications in registration order, and the environments
  of each in registration order.
\<close>

definition all_environments ::
  "EBBackend \<Rightarrow> (string \<times> string option \<times> Application \<times> Environment) list" where
  "all_environments b =
     concat (map (\<lambda>(k, app). map (\<lambda>(ek, env). (k, ek, app, env)) (environments app))
               (applications b))"

text \<open>Each stored object is filed under its own name.\<close>

definition keyed_by_name :: "EBBackend \<Rightarrow> bool" where
  "keyed_by_name b =
     (\<forall>(k, app) \<in> set (applications b).
        application_name app = k
        \<and> (\<forall>(ek, env) \<in> set (environments app). environment_name env = ek))"

text \<open>
  The states the store and a backend can be in: a backend freshly constructed for a
  region, with any store, or the state left by one of the four mutating operations on a
  reachable state, whether the call returned or raised.
\<close>

inductive reachable ::
  "(string \<Rightarrow> string \<Rightarrow> string \<Rightarrow> string \<Rightarrow> string) \<Rightarrow> string \<Rightarrow> heap \<Rightarrow> EBBackend \<Rightarrow> bool"
  for make_arn :: "string \<Rightarrow> string \<Rightarrow> string \<Rightarrow> string \<Rightarrow> string" and ACCOUNT_ID :: string
  where
    r_init: "reachable make_arn ACCOUNT_ID h (EBBackend_init r)"
  | r_create_application:
      "reachable make_arn ACCOUNT_ID h b \<Longrightarrow>
       reachable make_arn ACCOUNT_ID h (snd (create_application b app_name))"
  | r_create_environment:
      "reachable make_arn ACCOUNT_ID h b \<Longrightarrow>
       reachable make_arn ACCOUNT_ID h
         (snd (create_environment b app_name env_name stack_name tgs))"
  | r_update_tags:
      "reachable make_arn ACCOUNT_ID h b \<Longrightarrow>
       reachable make_arn ACCOUNT_ID
         (snd (update_tags_for_resource make_arn ACCOUNT_ID h b arn tags_to_add tags_to_remove))
         b"
  | r_reset:
      "reachable make_arn ACCOUNT_ID h b \<Longrightarrow> reachable make_arn ACCOUNT_ID h (reset b)"

subsection \<open>An instance for the examples\<close>

text \<open>
  A concrete ARN builder and account, to run the operations on: the examples below hold
  for this instance, the theorems for every builder and account.
\<close>

definition example_arn :: "string \<Rightarrow> string \<Rightarrow> string \<Rightarrow> string \<Rightarrow> string" where
  "example_arn r a t p = ''arn:'' @ r @ '':'' @ a @ '':'' @ t @ ''/'' @ p"

definition example_account :: string where
  "example_account = ''123456789012''"

text \<open>
  A store with the dictionary \<^verbatim>\<open>{"key": "a", "value": "1"}\<close> at reference 0, the
  dictionary \<^verbatim>\<open>{"key": "a", "value": "2"}\<close> at reference 1, and the list holding the
  first of them at reference 0; every other list is empty.
\<close>

definition heap1 :: heap where
  "heap1 =
     \<lparr>dict_at = (\<lambda>r. \<lparr>tag_key = [], tag_value = []\<rparr>)
                  (0 := \<lparr>tag_key = ''a'', tag_value = ''1''\<rparr>,
                   1 := \<lparr>tag_key = ''a'', tag_value = ''2''\<rparr>),
      list_at = (\<lambda>l. [])(0 := [0])\<rparr>"

text \<open>A registry with one application and one environment, whose tag list is list 0.\<close>

definition env1 :: Environment where
  "env1 = \<lparr>environment_name = Some ''env1'',
           solution_stack_name = Some ''64bit Amazon Linux'',
           tags = Some 0\<rparr>"

definition app1 :: Application where
  "app1 = \<lparr>application_name = ''app1'', environments = [(Some ''env1'', env1)]\<rparr>"

definition backend1 :: EBBackend where
  "backend1 = \<lparr>region = ''us-east-1'', applications = [(''app1'', app1)]\<rparr>"

text \<open>The same registry after a second environment is created with the default tags.\<close>

definition env2 :: Environment where
  "env2 = \<lparr>environment_name = Some ''env2'', solution_stack_name = None, tags = None\<rparr>"

definition backend2 :: EBBackend where
  "backend2 = snd (create_environment backend1 ''app1'' (Some ''env2'') None None)"

text \<open>
  A registry in which two environments have the same path \<open>a/b/c\<close>: the environment
  \<open>b/c\<close> of the application \<open>a\<close>, created with the empty list 2 as its tags, and the
  environment \<open>c\<close> of the application \<open>a/b\<close>, created afterwards with the default tags.
\<close>

definition backend3_before :: EBBackend where
  "backend3_before =
     snd (create_application
            (snd (create_environment
                    (snd (create_application (EBBackend_init ''us-east-1'') ''a''))
                    ''a'' (Some ''b/c'') None (Some 2)))
            ''a/b'')"

definition backend3 :: EBBackend where
  "backend3 = snd (create_environment backend3_before ''a/b'' (Some ''c'') None None)"

section \<open>Properties\<close>

subsection \<open>Lists and dictionaries\<close>

lemma find_SomeD: "List.find P xs = Some x \<Longrightarrow> x \<in> set xs \<and> P x"
  by (induction xs) (auto split: if_splits)

lemma find_append_case:
  "List.find P (xs @ ys) = (case List.find P xs of None \<Rightarrow> List.find P ys | Some x \<Rightarrow> Some x)"
  by (induction xs) auto

lemma find_map_option:
  "List.find P (map h xs) = map_option h (List.find (\<lambda>x. P (h x)) xs)"
  by (induction xs) auto

lemma is_dict_map_of: "is_dict d \<Longrightarrow> (k, v) \<in> set d \<Longrightarrow> map_of d k = Some v"
  by (simp add: is_dict_def)

lemma is_dict_unique: "is_dict xs \<Longrightarrow> (k, v) \<in> set xs \<Longrightarrow> (k, v') \<in> set xs \<Longrightarrow> v = v'"
  by (metis is_dict_map_of option.inject)

lemma set_update_subset: "set (AList.update k v xs) \<subseteq> insert (k, v) (set xs)"
  by (induction xs) auto

lemma ball_update:
  "P (k, v) \<Longrightarrow> \<forall>x \<in> set xs. P x \<Longrightarrow> \<forall>x \<in> set (AList.update k v xs). P x"
  using set_update_subset [of k v xs] by blast

lemma is_dict_update: "is_dict xs \<Longrightarrow> is_dict (AList.update k v xs)"
  by (simp add: is_dict_def distinct_update)

subsection \<open>Identifiers\<close>

lemma environment_arn_cong:
  "region b' = region b \<Longrightarrow> application_name app' = application_name app \<Longrightarrow>
   environment_name env' = environment_name env \<Longrightarrow>
   environment_arn mk acct b' app' env' = environment_arn mk acct b app env"
  by (simp add: environment_arn_def Environment_region_def Application_region_def
      Environment_application_name_def)

text \<open>
  C1. In a registry with region \<open>r\<close>, the ARN of an environment named \<open>e\<close> of an
  application named \<open>a\<close> is \<open>make_arn r ACCOUNT_ID "environment" (a + "/" + e)\<close>, and the
  ARN of the application is \<open>make_arn r ACCOUNT_ID "application" a\<close>. Both are given by
  the region and the names alone, whatever else the three objects hold.
\<close>

theorem identifier_derivation:
  assumes "region b = r" and "application_name app = a" and "environment_name env = Some e"
  shows "environment_arn make_arn ACCOUNT_ID b app env
           = make_arn r ACCOUNT_ID ''environment'' (a @ ''/'' @ e)
       \<and> Application_arn make_arn ACCOUNT_ID b app = make_arn r ACCOUNT_ID ''application'' a"
  using assms
  by (simp add: environment_arn_def Application_arn_def Environment_region_def
      Application_region_def Environment_application_name_def)

theorem identifier_derivation_witness:
  "region backend1 = ''us-east-1'' \<and> application_name app1 = ''app1''
   \<and> environment_name env1 = Some ''env1''
   \<and> environment_arn example_arn example_account backend1 app1 env1
       = ''arn:us-east-1:123456789012:environment/app1/env1''
   \<and> Application_arn example_arn example_account backend1 app1
       = ''arn:us-east-1:123456789012:application/app1''"
  using identifier_derivation [of backend1 "''us-east-1''" app1 "''app1''" env1 "''env1''"
      example_arn example_account]
  by (simp add: backend1_def app1_def env1_def example_arn_def example_account_def)

subsection \<open>Lookup by ARN\<close>

lemma find_environment_loop_scan:
  assumes "\<forall>(k, app) \<in> set xs. map_of (applications b) k = Some app"
  shows "find_environment_loop mk acct b arn (map fst xs) =
     (case List.find (\<lambda>(k, ek, app, env). environment_arn mk acct b app env = arn)
             (concat (map (\<lambda>(k, app). map (\<lambda>(ek, env). (k, ek, app, env)) (environments app)) xs)) of
        None \<Rightarrow> Inl KeyError
      | Some (k, ek, app, env) \<Rightarrow> Inr (k, ek, env))"
  using assms
proof (induction xs)
  case Nil
  then show ?case by simp
next
  case (Cons x xs)
  obtain k app where x: "x = (k, app)" by (cases x)
  from Cons.prems x have look: "map_of (applications b) k = Some app" by simp
  from Cons.prems have rest: "\<forall>(k, app) \<in> set xs. map_of (applications b) k = Some app" by simp
  show ?case
    using Cons.IH [OF rest] look x
    by (simp add: find_append_case find_map_option case_prod_unfold split: option.splits)
qed

lemma find_environment_by_arn_scan:
  assumes "is_dict (applications b)"
  shows "find_environment_by_arn mk acct b arn =
     (case List.find (\<lambda>(k, ek, app, env). environment_arn mk acct b app env = arn)
             (all_environments b) of
        None \<Rightarrow> Inl KeyError
      | Some (k, ek, app, env) \<Rightarrow> Inr (k, ek, env))"
  unfolding find_environment_by_arn_def all_environments_def
  by (rule find_environment_loop_scan) (use assms in \<open>auto simp: is_dict_map_of\<close>)

lemma find_environment_loop_Inr:
  "find_environment_loop mk acct b arn ks = Inr (ak, ek, env) \<Longrightarrow>
   \<exists>app. map_of (applications b) ak = Some app \<and> (ek, env) \<in> set (environments app)
         \<and> environment_arn mk acct b app env = arn"
proof (induction ks)
  case Nil
  then show ?case by simp
next
  case (Cons k ks)
  show ?case
  proof (cases "map_of (applications b) k")
    case None
    with Cons.prems show ?thesis by simp
  next
    case (Some app)
    show ?thesis
    proof (cases "List.find (\<lambda>(ek, env). environment_arn mk acct b app env = arn) (environments app)")
      case None
      with Some Cons show ?thesis by simp
    next
      case found: (Some p)
      from find_SomeD [OF found] Some found Cons.prems show ?thesis by auto
    qed
  qed
qed

lemma find_environment_by_arn_Inr:
  "find_environment_by_arn mk acct b arn = Inr (ak, ek, env) \<Longrightarrow>
   \<exists>app. map_of (applications b) ak = Some app \<and> (ek, env) \<in> set (environments app)
         \<and> environment_arn mk acct b app env = arn"
  unfolding find_environment_by_arn_def by (rule find_environment_loop_Inr)

lemma backend1_wf: "wf_backend backend1"
  by (simp add: wf_backend_def is_dict_def backend1_def app1_def)

lemma backend1_find:
  "find_environment_by_arn example_arn example_account backend1
     ''arn:us-east-1:123456789012:environment/app1/env1'' = Inr (''app1'', Some ''env1'', env1)"
  by (simp add: find_environment_by_arn_def backend1_def app1_def env1_def environment_arn_def
      Environment_region_def Application_region_def Environment_application_name_def
      example_arn_def example_account_def)

text \<open>
  C2. In a registry whose applications form a dictionary, the lookup by ARN returns the
  first environment, in application order and then environment order, whose ARN is the
  one asked for, and signals \<open>KeyError\<close> when there is none; \<open>list_tags_for_resource\<close>
  turns that signal into \<open>ResourceNotFoundException\<close>, which it therefore raises exactly
  when no stored environment has that ARN.
\<close>

theorem find_environment_first_match:
  assumes "is_dict (applications b)"
  shows "find_environment_by_arn mk acct b arn =
     (case List.find (\<lambda>(k, ek, app, env). environment_arn mk acct b app env = arn)
             (all_environments b) of
        None \<Rightarrow> Inl KeyError
      | Some (k, ek, app, env) \<Rightarrow> Inr (k, ek, env))
   \<and> list_tags_for_resource mk acct b arn =
     (case List.find (\<lambda>(k, ek, app, env). environment_arn mk acct b app env = arn)
             (all_environments b) of
        None \<Rightarrow> Inl (ResourceNotFoundException
                 (''Resource not found for ARN '' @ [CHR 0x27] @ arn @ [CHR 0x27] @ ''.''))
      | Some (k, ek, app, env) \<Rightarrow> Inr (arn, tags env))
   \<and> (is_ResourceNotFoundException (list_tags_for_resource mk acct b arn) \<longleftrightarrow>
        \<not> (\<exists>(k, ek, app, env) \<in> set (all_environments b).
              environment_arn mk acct b app env = arn))"
proof -
  let ?P = "\<lambda>(k, ek, app, env). environment_arn mk acct b app env = arn"
  note scan = find_environment_by_arn_scan [OF assms, of mk acct arn]
  show ?thesis
  proof (cases "List.find ?P (all_environments b)")
    case None
    then have f: "find_environment_by_arn mk acct b arn = Inl KeyError"
      using scan by simp
    have "\<not> (\<exists>x \<in> set (all_environments b). ?P x)"
      using None by (auto simp: find_None_iff)
    then show ?thesis using None f
      by (simp add: list_tags_for_resource_def)
  next
    case (Some x)
    obtain k ek app env where x: "x = (k, ek, app, env)" by (cases x)
    have f: "find_environment_by_arn mk acct b arn = Inr (k, ek, env)"
      using scan Some x by simp
    have "x \<in> set (all_environments b)" and "?P x"
      using find_SomeD [OF Some] by simp_all
    then have "\<exists>x \<in> set (all_environments b). ?P x" by blast
    then show ?thesis using Some f x
      by (simp add: list_tags_for_resource_def)
  qed
qed

theorem find_environment_first_match_witness:
  "is_dict (applications backend1)
   \<and> find_environment_by_arn example_arn example_account backend1
       ''arn:us-east-1:123456789012:environment/app1/env1'' = Inr (''app1'', Some ''env1'', env1)
   \<and> list_tags_for_resource example_arn example_account backend1
       ''arn:us-east-1:123456789012:environment/app1/env1''
     = Inr (''arn:us-east-1:123456789012:environment/app1/env1'', Some 0)
   \<and> tag_values heap1 0 = [\<lparr>tag_key = ''a'', tag_value = ''1''\<rparr>]
   \<and> is_ResourceNotFoundException
       (list_tags_for_resource example_arn example_account backend1
          ''arn:us-east-1:123456789012:environment/app1/env2'')"
proof -
  have d: "is_dict (applications backend1)"
    by (simp add: is_dict_def backend1_def)
  show ?thesis
    using d find_environment_first_match [OF d, of example_arn example_account
        "''arn:us-east-1:123456789012:environment/app1/env1''"]
      find_environment_first_match [OF d, of example_arn example_account
        "''arn:us-east-1:123456789012:environment/app1/env2''"]
    by (simp add: all_environments_def backend1_def app1_def env1_def environment_arn_def
        Environment_region_def Application_region_def Environment_application_name_def
        example_arn_def example_account_def tag_values_def heap1_def)
qed

subsection \<open>Creating applications, resetting\<close>

text \<open>
  C5. Whatever the registry holds, after one \<open>create_application A\<close> a second one raises
  \<open>InvalidParameterValueError\<close> (``Application A already exists.'') and changes nothing;
  the application that the first call returned is the one registered under \<open>A\<close>.
\<close>

theorem create_application_twice:
  "(case create_application b A of
      (r1, b1) \<Rightarrow>
        create_application b1 A =
          (Inl (InvalidParameterValueError (Some (''Application '' @ A @ '' already exists.''))), b1)
        \<and> (\<forall>app. r1 = Inr app \<longrightarrow> map_of (applications b1) A = Some app))"
  by (auto simp: create_application_def dict_contains_def Let_def update_Some_unfold)

theorem create_application_twice_witness:
  "fst (create_application (EBBackend_init ''us-east-1'') ''app1'')
     = Inr \<lparr>application_name = ''app1'', environments = []\<rparr>
   \<and> is_InvalidParameterValueError
       (fst (create_application
               (snd (create_application (EBBackend_init ''us-east-1'') ''app1'')) ''app1''))
   \<and> map_of (applications
               (snd (create_application
                       (snd (create_application (EBBackend_init ''us-east-1'') ''app1''))
                       ''app1''))) ''app1''
     = Some \<lparr>application_name = ''app1'', environments = []\<rparr>"
  using create_application_twice [where b = "EBBackend_init ''us-east-1''" and A = "''app1''"]
  by (simp add: create_application_def dict_contains_def EBBackend_init_def Let_def)

text \<open>
  C8. \<open>reset\<close> keeps the region and leaves no application and no environment, whatever was
  stored before: the new state is built from the region alone. After it no ARN resolves,
  so neither does one computed from an object of the old state: the lookup signals
  \<open>KeyError\<close>, and \<open>list_tags_for_resource\<close> and \<open>update_tags_for_resource\<close> raise
  \<open>ResourceNotFoundException\<close>, the latter without touching any tag object.
\<close>

theorem reset_preserves_region:
  "region (reset b) = region b \<and> applications (reset b) = []
   \<and> reset b = EBBackend_init (region b)
   \<and> describe_applications (reset b) = [] \<and> describe_environments (reset b) = []
   \<and> find_environment_by_arn make_arn ACCOUNT_ID (reset b) arn = Inl KeyError
   \<and> is_ResourceNotFoundException (list_tags_for_resource make_arn ACCOUNT_ID (reset b) arn)
   \<and> is_ResourceNotFoundException
       (fst (update_tags_for_resource make_arn ACCOUNT_ID h (reset b) arn
               tags_to_add tags_to_remove))
   \<and> snd (update_tags_for_resource make_arn ACCOUNT_ID h (reset b) arn
             tags_to_add tags_to_remove) = h"
  by (simp add: reset_def EBBackend_init_def find_environment_by_arn_def
      list_tags_for_resource_def update_tags_for_resource_def describe_applications_def
      describe_environments_def)

theorem reset_preserves_region_witness:
  "region backend1 = ''us-east-1'' \<and> applications backend1 \<noteq> []
   \<and> region (reset backend1) = ''us-east-1'' \<and> applications (reset backend1) = []
   \<and> find_environment_by_arn example_arn example_account (reset backend1)
       (environment_arn example_arn example_account backend1 app1 env1) = Inl KeyError
   \<and> is_ResourceNotFoundException
       (list_tags_for_resource example_arn example_account (reset backend1)
          (environment_arn example_arn example_account backend1 app1 env1))"
  using reset_preserves_region [where b = backend1 and make_arn = example_arn
      and ACCOUNT_ID = example_account
      and arn = "environment_arn example_arn example_account backend1 app1 env1"
      and h = heap1 and tags_to_add = "[]" and tags_to_remove = "[]"]
  by (simp add: backend1_def reset_def EBBackend_init_def)

subsection \<open>Invariants\<close>

lemma wf_init: "wf_backend (EBBackend_init r)"
  by (simp add: wf_backend_def EBBackend_init_def is_dict_def)

lemma wf_reset: "wf_backend (reset b)"
  by (simp add: reset_def wf_init)

lemma wf_create_application:
  assumes "wf_backend b"
  shows "wf_backend (snd (create_application b n))"
proof (cases "dict_contains (applications b) n")
  case True
  with assms show ?thesis by (simp add: create_application_def)
next
  case False
  have "\<And>k app. (k, app) \<in> set (AList.update n \<lparr>application_name = n, environments = []\<rparr> (applications b))
      \<Longrightarrow> is_dict (environments app)"
    using assms set_update_subset [of n _ "applications b"]
    by (fastforce simp: wf_backend_def is_dict_def)
  with False assms show ?thesis
    by (auto simp: create_application_def wf_backend_def is_dict_update Let_def)
qed

lemma wf_Application_create_environment:
  "is_dict (environments app) \<Longrightarrow>
   is_dict (environments (snd (Application_create_environment app e s t)))"
  by (simp add: Application_create_environment_def is_dict_update Let_def)

lemma wf_create_environment:
  assumes "wf_backend b"
  shows "wf_backend (snd (create_environment b a e s t))"
proof (cases "map_of (applications b) a")
  case None
  with assms show ?thesis by (simp add: create_environment_def)
next
  case (Some app)
  then have "(a, app) \<in> set (applications b)" by (rule map_of_SomeD)
  with assms have d: "is_dict (environments app)" by (auto simp: wf_backend_def)
  let ?app' = "snd (Application_create_environment app e s t)"
  have b': "applications (snd (create_environment b a e s t)) = AList.update a ?app' (applications b)"
    using Some by (simp add: create_environment_def split: prod.splits)
  have "\<And>k x. (k, x) \<in> set (AList.update a ?app' (applications b)) \<Longrightarrow> is_dict (environments x)"
  proof -
    fix k x assume "(k, x) \<in> set (AList.update a ?app' (applications b))"
    then have "(k, x) = (a, ?app') \<or> (k, x) \<in> set (applications b)"
      using set_update_subset [of a ?app' "applications b"] by blast
    then show "is_dict (environments x)"
      using assms wf_Application_create_environment [OF d] by (auto simp: wf_backend_def)
  qed
  then show ?thesis using assms b'
    by (auto simp: wf_backend_def is_dict_update)
qed

lemma reachable_wf: "reachable mk acct h b \<Longrightarrow> wf_backend b"
  by (induction rule: reachable.induct)
    (simp_all add: wf_init wf_reset wf_create_application wf_create_environment)

lemma keyed_init: "keyed_by_name (EBBackend_init r)"
  by (simp add: keyed_by_name_def EBBackend_init_def)

lemma keyed_create_application:
  assumes "keyed_by_name b"
  shows "keyed_by_name (snd (create_application b n))"
proof (cases "dict_contains (applications b) n")
  case True
  with assms show ?thesis by (simp add: create_application_def)
next
  case False
  let ?P = "\<lambda>(k, app). application_name app = k
        \<and> (\<forall>(ek, env) \<in> set (environments app). environment_name env = ek)"
  have old: "\<forall>x \<in> set (applications b). ?P x"
    using assms by (simp add: keyed_by_name_def)
  have new: "?P (n, \<lparr>application_name = n, environments = []\<rparr>)" by simp
  have "\<forall>x \<in> set (AList.update n \<lparr>application_name = n, environments = []\<rparr>
                    (applications b)). ?P x"
    using new old by (rule ball_update)
  with False show ?thesis
    by (simp add: create_application_def Let_def keyed_by_name_def)
qed

lemma keyed_Application_create_environment:
  assumes "\<forall>(ek, env) \<in> set (environments app). environment_name env = ek"
  shows "application_name (snd (Application_create_environment app e s t)) = application_name app
     \<and> (\<forall>(ek, env) \<in> set (environments (snd (Application_create_environment app e s t))).
          environment_name env = ek)"
proof (cases "dict_contains (environments app) e")
  case True
  with assms show ?thesis by (simp add: Application_create_environment_def)
next
  case False
  let ?P = "\<lambda>(ek, env). environment_name env = ek"
  have new: "?P (e, \<lparr>environment_name = e, solution_stack_name = s, tags = t\<rparr>)" by simp
  have "\<forall>x \<in> set (AList.update e \<lparr>environment_name = e, solution_stack_name = s, tags = t\<rparr>
                    (environments app)). ?P x"
    using new assms by (rule ball_update)
  with False show ?thesis
    by (simp add: Application_create_environment_def Let_def)
qed

lemma keyed_create_environment:
  assumes "keyed_by_name b"
  shows "keyed_by_name (snd (create_environment b a e s t))"
proof (cases "map_of (applications b) a")
  case None
  with assms show ?thesis by (simp add: create_environment_def)
next
  case (Some app)
  let ?P = "\<lambda>(k, app). application_name app = k
        \<and> (\<forall>(ek, env) \<in> set (environments app). environment_name env = ek)"
  have old: "\<forall>x \<in> set (applications b). ?P x"
    using assms by (simp add: keyed_by_name_def)
  from Some have m: "(a, app) \<in> set (applications b)" by (rule map_of_SomeD)
  with old have n: "application_name app = a"
    and k: "\<forall>(ek, env) \<in> set (environments app). environment_name env = ek"
    by auto
  let ?app' = "snd (Application_create_environment app e s t)"
  have new: "?P (a, ?app')"
    using keyed_Application_create_environment [OF k, of e s t] n by simp
  have b': "applications (snd (create_environment b a e s t)) = AList.update a ?app' (applications b)"
    using Some by (simp add: create_environment_def split: prod.splits)
  have "\<forall>x \<in> set (AList.update a ?app' (applications b)). ?P x"
    using new old by (rule ball_update)
  then show ?thesis
    unfolding keyed_by_name_def b' .
qed

text \<open>
  C9. In every reachable state each application is stored under its own
  \<open>application_name\<close> and each environment under its own \<open>environment_name\<close>.
\<close>

theorem reachable_keyed_by_name:
  "reachable make_arn ACCOUNT_ID h b \<Longrightarrow> keyed_by_name b"
proof (induction rule: reachable.induct)
  case (r_init h r)
  show ?case by (rule keyed_init)
next
  case (r_create_application h b app_name)
  then show ?case by (simp add: keyed_create_application)
next
  case (r_create_environment h b app_name env_name stack_name tgs)
  then show ?case by (simp add: keyed_create_environment)
next
  case (r_update_tags h b arn tags_to_add tags_to_remove)
  then show ?case by simp
next
  case (r_reset h b)
  show ?case by (simp add: reset_def keyed_init)
qed

lemma backend1_built:
  "backend1 =
     snd (create_environment (snd (create_application (EBBackend_init ''us-east-1'') ''app1''))
            ''app1'' (Some ''env1'') (Some ''64bit Amazon Linux'') (Some 0))"
  by (simp add: backend1_def app1_def env1_def create_environment_def create_application_def
      Application_create_environment_def EBBackend_init_def dict_contains_def Let_def)

theorem reachable_keyed_by_name_witness:
  "reachable example_arn example_account heap1 backend1 \<and> keyed_by_name backend1"
proof -
  have r: "reachable example_arn example_account heap1 backend1"
    unfolding backend1_built by (intro reachable.intros)
  show ?thesis using r reachable_keyed_by_name [OF r] by simp
qed

subsection \<open>Tags\<close>

lemma add_tags_loop_Some:
  "add_tags_loop h (Some l) tags_to_add = (Inr (), foldl (\<lambda>g r. add_tag g l r) h tags_to_add)"
  by (induction tags_to_add arbitrary: h) auto

lemma remove_tags_loop_Some:
  "remove_tags_loop h (Some l) tags_to_remove
     = (Inr (), foldl (\<lambda>g k. remove_tag g l k) h tags_to_remove)"
  by (induction tags_to_remove arbitrary: h) auto

lemma add_tags_loop_None:
  "tags_to_add \<noteq> [] \<Longrightarrow> add_tags_loop h None tags_to_add = (Inl TypeError, h)"
  by (cases tags_to_add) simp_all

lemma remove_tags_loop_None:
  "tags_to_remove \<noteq> [] \<Longrightarrow> remove_tags_loop h None tags_to_remove = (Inl TypeError, h)"
  by (cases tags_to_remove) simp_all

lemma update_tags_result:
  assumes "find_environment_by_arn mk acct b arn = Inr (ak, ek, env)" and "tags env = Some l"
  shows "update_tags_for_resource mk acct h b arn tags_to_add tags_to_remove =
     (Inr (), foldl (\<lambda>g k. remove_tag g l k) (foldl (\<lambda>g r. add_tag g l r) h tags_to_add)
                tags_to_remove)"
  using assms
  by (simp add: update_tags_for_resource_def add_tags_loop_Some remove_tags_loop_Some)

lemma update_tags_None:
  assumes "find_environment_by_arn mk acct b arn = Inr (ak, ek, env)" and "tags env = None"
    and "tags_to_add \<noteq> [] \<or> tags_to_remove \<noteq> []"
  shows "update_tags_for_resource mk acct h b arn tags_to_add tags_to_remove = (Inl TypeError, h)"
proof (cases tags_to_add)
  case Nil
  with assms show ?thesis
    by (simp add: update_tags_for_resource_def remove_tags_loop_None)
next
  case (Cons r rest)
  with assms show ?thesis
    by (simp add: update_tags_for_resource_def)
qed

lemma find_ref_None:
  "k \<notin> tag_key ` dict_at h ` set rs \<Longrightarrow> List.find (\<lambda>t. tag_key (dict_at h t) = k) rs = None"
  by (auto simp: find_None_iff)

lemma find_ref_first:
  "tag_key (dict_at h t) = k \<Longrightarrow> k \<notin> tag_key ` dict_at h ` set pre \<Longrightarrow>
   List.find (\<lambda>t. tag_key (dict_at h t) = k) (pre @ t # post) = Some t"
  by (induction pre) auto

lemma find_ref_present:
  "k \<in> tag_key ` dict_at h ` set rs \<Longrightarrow>
   \<exists>t. List.find (\<lambda>t. tag_key (dict_at h t) = k) rs = Some t"
  by (cases "List.find (\<lambda>t. tag_key (dict_at h t) = k) rs") (auto simp: find_None_iff)

lemma list_remove_first:
  "tag_key (dict_at h t) \<notin> tag_key ` dict_at h ` set pre \<Longrightarrow>
   list_remove h t (pre @ t # post) = pre @ post"
  by (induction pre) auto

lemma add_tag_absent:
  "tag_key (dict_at h r) \<notin> tag_key ` dict_at h ` set (list_at h l) \<Longrightarrow>
   add_tag h l r = h\<lparr>list_at := (list_at h)(l := list_at h l @ [r])\<rparr>"
  by (simp add: add_tag_def find_ref_None)

lemma add_tag_present:
  "list_at h l = pre @ t # post \<Longrightarrow> tag_key (dict_at h t) = tag_key (dict_at h r) \<Longrightarrow>
   tag_key (dict_at h r) \<notin> tag_key ` dict_at h ` set pre \<Longrightarrow>
   add_tag h l r =
     h\<lparr>dict_at := (dict_at h)(t := (dict_at h t)\<lparr>tag_value := tag_value (dict_at h r)\<rparr>)\<rparr>"
  by (simp add: add_tag_def find_ref_first)

lemma add_tag_key: "tag_key (dict_at (add_tag h l r) x) = tag_key (dict_at h x)"
  by (simp add: add_tag_def split: option.splits)

lemma add_tag_list:
  "list_at (add_tag h l r) l =
     (if tag_key (dict_at h r) \<in> tag_key ` dict_at h ` set (list_at h l)
      then list_at h l else list_at h l @ [r])"
proof (cases "tag_key (dict_at h r) \<in> tag_key ` dict_at h ` set (list_at h l)")
  case True
  from find_ref_present [OF this] obtain t where
    "List.find (\<lambda>t. tag_key (dict_at h t) = tag_key (dict_at h r)) (list_at h l) = Some t" ..
  with True show ?thesis by (simp add: add_tag_def)
next
  case False
  then show ?thesis by (simp add: add_tag_absent)
qed

lemma add_tag_keys:
  "map tag_key (tag_values (add_tag h l r) l) =
     (if tag_key (dict_at h r) \<in> tag_key ` dict_at h ` set (list_at h l)
      then map tag_key (tag_values h l)
      else map tag_key (tag_values h l) @ [tag_key (dict_at h r)])"
  by (simp add: tag_values_def add_tag_list add_tag_key comp_def)

lemma tag_values_keys: "set (map tag_key (tag_values h l)) = tag_key ` dict_at h ` set (list_at h l)"
  by (auto simp: tag_values_def)

lemma add_tag_distinct:
  "distinct (map tag_key (tag_values h l)) \<Longrightarrow>
   distinct (map tag_key (tag_values (add_tag h l r) l))"
  using tag_values_keys [of h l] by (simp add: add_tag_keys del: set_map)

lemma remove_tag_absent:
  "k \<notin> tag_key ` dict_at h ` set (list_at h l) \<Longrightarrow> remove_tag h l k = h"
  by (simp add: remove_tag_def find_ref_None)

lemma remove_tag_present:
  "list_at h l = pre @ t # post \<Longrightarrow> tag_key (dict_at h t) \<notin> tag_key ` dict_at h ` set pre \<Longrightarrow>
   remove_tag h l (tag_key (dict_at h t)) = h\<lparr>list_at := (list_at h)(l := pre @ post)\<rparr>"
  by (simp add: remove_tag_def find_ref_first list_remove_first)

lemma foldl_remove_tag_absent:
  "set ks \<inter> tag_key ` dict_at h ` set (list_at h l) = {} \<Longrightarrow>
   foldl (\<lambda>g k. remove_tag g l k) h ks = h"
  by (induction ks) (auto simp: remove_tag_absent)


lemma backend2_eq:
  "backend2 =
     \<lparr>region = ''us-east-1'',
      applications =
        [(''app1'', \<lparr>application_name = ''app1'',
                     environments = [(Some ''env1'', env1), (Some ''env2'', env2)]\<rparr>)]\<rparr>"
  by (simp add: backend2_def backend1_def app1_def env1_def env2_def create_environment_def
      Application_create_environment_def dict_contains_def Let_def)

lemma backend2_reachable: "reachable example_arn example_account heap1 backend2"
  unfolding backend2_def backend1_built by (intro reachable.intros)

lemma backend2_find:
  "find_environment_by_arn example_arn example_account backend2
     ''arn:us-east-1:123456789012:environment/app1/env2'' = Inr (''app1'', Some ''env2'', env2)"
  by (simp add: backend2_eq find_environment_by_arn_def env1_def env2_def environment_arn_def
      Environment_region_def Application_region_def Environment_application_name_def
      example_arn_def example_account_def)

text \<open>
  The two inputs on which adding by value and adding by reference differ. First, the
  dictionary 0 occurs twice in \<^verbatim>\<open>tags_to_add\<close>, with the dictionary 1 between, and the tag
  list 2 is empty: dictionary 0 is appended, then overwritten with the value of
  dictionary 1, and the third pass assigns it its own value. Second, the tag list holds
  dictionary 0 twice: overwriting it shows in both places.
\<close>

lemma add_tags_same_dictionary_twice:
  "tag_values (snd (add_tags_loop heap1 (Some 2) [0, 1, 0])) 2
     = [\<lparr>tag_key = ''a'', tag_value = ''2''\<rparr>]"
  by (simp add: add_tag_def heap1_def tag_values_def)

lemma add_tag_dictionary_stored_twice:
  "tag_values (add_tag (heap1\<lparr>list_at := (list_at heap1)(2 := [0, 0])\<rparr>) 2 1) 2
     = [\<lparr>tag_key = ''a'', tag_value = ''2''\<rparr>, \<lparr>tag_key = ''a'', tag_value = ''2''\<rparr>]"
  by (simp add: add_tag_def heap1_def tag_values_def)

text \<open>
  In \<open>backend2\<close> the environment \<open>env2\<close> was created with the default tags, and its ARN
  resolves to it. Adding the tag at reference 1 raises \<open>TypeError\<close> and appends nothing.
\<close>

theorem update_tags_upsert_counterexample:
  "find_environment_by_arn example_arn example_account backend2
     ''arn:us-east-1:123456789012:environment/app1/env2'' = Inr (''app1'', Some ''env2'', env2)
   \<and> tags env2 = None
   \<and> update_tags_for_resource example_arn example_account heap1 backend2
       ''arn:us-east-1:123456789012:environment/app1/env2'' [1] [] = (Inl TypeError, heap1)"
  by (simp add: backend2_find update_tags_for_resource_def env2_def)

text \<open>
  C6, for an environment whose tag field is a list. When the ARN resolves to an environment
  holding the tag list \<open>l\<close>, the update returns normally, and the store afterwards is the
  old one with the tags to add put into list \<open>l\<close> one after the other and then the keys to
  remove taken out. Putting a tag in appends the tag itself when no tag of the list has
  its key; otherwise the first tag of the list with that key is given the new value where
  it stands, the list and the keys it shows stay as they were, and a list without
  duplicate keys stays so.
\<close>

theorem update_tags_upsert:
  assumes "find_environment_by_arn mk acct b arn = Inr (ak, ek, env)" and "tags env = Some l"
  shows "update_tags_for_resource mk acct h b arn tags_to_add tags_to_remove =
       (Inr (), foldl (\<lambda>g k. remove_tag g l k) (foldl (\<lambda>g r. add_tag g l r) h tags_to_add)
                  tags_to_remove)
     \<and> list_tags_for_resource mk acct b arn = Inr (arn, Some l)
     \<and> (\<forall>g r. tag_key (dict_at g r) \<notin> tag_key ` dict_at g ` set (list_at g l) \<longrightarrow>
           add_tag g l r = g\<lparr>list_at := (list_at g)(l := list_at g l @ [r])\<rparr>)
     \<and> (\<forall>g r pre t post.
           list_at g l = pre @ t # post \<and> tag_key (dict_at g t) = tag_key (dict_at g r)
           \<and> tag_key (dict_at g r) \<notin> tag_key ` dict_at g ` set pre \<longrightarrow>
           add_tag g l r =
             g\<lparr>dict_at := (dict_at g)
                  (t := (dict_at g t)\<lparr>tag_value := tag_value (dict_at g r)\<rparr>)\<rparr>)
     \<and> (\<forall>g r. tag_key (dict_at g r) \<in> tag_key ` dict_at g ` set (list_at g l) \<longrightarrow>
           list_at (add_tag g l r) l = list_at g l
           \<and> map tag_key (tag_values (add_tag g l r) l) = map tag_key (tag_values g l))
     \<and> (\<forall>g r. distinct (map tag_key (tag_values g l)) \<longrightarrow>
           distinct (map tag_key (tag_values (add_tag g l r) l)))"
proof -
  note 1 = update_tags_result [OF assms, of h tags_to_add tags_to_remove]
  have 2: "\<forall>g r. tag_key (dict_at g r) \<notin> tag_key ` dict_at g ` set (list_at g l) \<longrightarrow>
           add_tag g l r = g\<lparr>list_at := (list_at g)(l := list_at g l @ [r])\<rparr>"
    by (simp add: add_tag_absent)
  have 3: "\<forall>g r pre t post.
           list_at g l = pre @ t # post \<and> tag_key (dict_at g t) = tag_key (dict_at g r)
           \<and> tag_key (dict_at g r) \<notin> tag_key ` dict_at g ` set pre \<longrightarrow>
           add_tag g l r =
             g\<lparr>dict_at := (dict_at g)
                  (t := (dict_at g t)\<lparr>tag_value := tag_value (dict_at g r)\<rparr>)\<rparr>"
    by (intro allI impI, elim conjE, rule add_tag_present)
  have 4: "\<forall>g r. tag_key (dict_at g r) \<in> tag_key ` dict_at g ` set (list_at g l) \<longrightarrow>
           list_at (add_tag g l r) l = list_at g l
           \<and> map tag_key (tag_values (add_tag g l r) l) = map tag_key (tag_values g l)"
    by (simp add: add_tag_list add_tag_keys)
  have 5: "\<forall>g r. distinct (map tag_key (tag_values g l)) \<longrightarrow>
           distinct (map tag_key (tag_values (add_tag g l r) l))"
    by (simp add: add_tag_distinct)
  have 6: "list_tags_for_resource mk acct b arn = Inr (arn, Some l)"
    using assms by (simp add: list_tags_for_resource_def)
  show ?thesis
    by (rule conjI [OF 1 conjI [OF 6 conjI [OF 2 conjI [OF 3 conjI [OF 4 5]]]]])
qed

theorem update_tags_upsert_witness:
  "find_environment_by_arn example_arn example_account backend1
       ''arn:us-east-1:123456789012:environment/app1/env1'' = Inr (''app1'', Some ''env1'', env1)
   \<and> tags env1 = Some 0
   \<and> tag_values heap1 0 = [\<lparr>tag_key = ''a'', tag_value = ''1''\<rparr>]
   \<and> dict_at heap1 1 = \<lparr>tag_key = ''a'', tag_value = ''2''\<rparr>
   \<and> fst (update_tags_for_resource example_arn example_account heap1 backend1
            ''arn:us-east-1:123456789012:environment/app1/env1'' [1] []) = Inr ()
   \<and> tag_values
       (snd (update_tags_for_resource example_arn example_account heap1 backend1
               ''arn:us-east-1:123456789012:environment/app1/env1'' [1] [])) 0
     = [\<lparr>tag_key = ''a'', tag_value = ''2''\<rparr>]
   \<and> list_at
       (snd (update_tags_for_resource example_arn example_account heap1 backend1
               ''arn:us-east-1:123456789012:environment/app1/env1'' [1] [])) 0
     = [0]"
proof -
  have t: "tags env1 = Some 0"
    by (simp add: env1_def)
  show ?thesis
    using update_tags_upsert [OF backend1_find t, of heap1 "[1]" "[]", THEN conjunct1]
      backend1_find t
    by (simp add: add_tag_def heap1_def tag_values_def)
qed

text \<open>
  On the same environment \<open>env2\<close>, created with the default tags, removing the key \<open>b\<close>,
  which no tag has, raises \<open>TypeError\<close>.
\<close>

theorem update_tags_remove_counterexample:
  "find_environment_by_arn example_arn example_account backend2
     ''arn:us-east-1:123456789012:environment/app1/env2'' = Inr (''app1'', Some ''env2'', env2)
   \<and> tags env2 = None
   \<and> update_tags_for_resource example_arn example_account heap1 backend2
       ''arn:us-east-1:123456789012:environment/app1/env2'' [] [''b'']
     = (Inl TypeError, heap1)"
  by (simp add: backend2_find update_tags_for_resource_def env2_def)

text \<open>
  C7, for an environment whose tag field is a list. When the ARN resolves to an environment
  holding the tag list \<open>l\<close>, the update returns normally. Taking a key out deletes from
  the list the first tag with that key and changes nothing else; when no tag of the list
  has the key it changes nothing at all. With nothing to add and only keys that no tag
  has, the store after the call is the store before it.
\<close>

theorem update_tags_remove:
  assumes "find_environment_by_arn mk acct b arn = Inr (ak, ek, env)" and "tags env = Some l"
  shows "update_tags_for_resource mk acct h b arn tags_to_add tags_to_remove =
       (Inr (), foldl (\<lambda>g k. remove_tag g l k) (foldl (\<lambda>g r. add_tag g l r) h tags_to_add)
                  tags_to_remove)
     \<and> list_tags_for_resource mk acct b arn = Inr (arn, Some l)
     \<and> (\<forall>g pre t post.
           list_at g l = pre @ t # post
           \<and> tag_key (dict_at g t) \<notin> tag_key ` dict_at g ` set pre \<longrightarrow>
           remove_tag g l (tag_key (dict_at g t)) = g\<lparr>list_at := (list_at g)(l := pre @ post)\<rparr>)
     \<and> (\<forall>g k. k \<notin> tag_key ` dict_at g ` set (list_at g l) \<longrightarrow> remove_tag g l k = g)
     \<and> (set tags_to_remove \<inter> tag_key ` dict_at h ` set (list_at h l) = {} \<longrightarrow>
           update_tags_for_resource mk acct h b arn [] tags_to_remove = (Inr (), h))"
proof -
  note 1 = update_tags_result [OF assms, of h tags_to_add tags_to_remove]
  have 2: "\<forall>g pre t post.
           list_at g l = pre @ t # post
           \<and> tag_key (dict_at g t) \<notin> tag_key ` dict_at g ` set pre \<longrightarrow>
           remove_tag g l (tag_key (dict_at g t)) = g\<lparr>list_at := (list_at g)(l := pre @ post)\<rparr>"
    by (intro allI impI, elim conjE, rule remove_tag_present)
  have 3: "\<forall>g k. k \<notin> tag_key ` dict_at g ` set (list_at g l) \<longrightarrow> remove_tag g l k = g"
    by (simp add: remove_tag_absent)
  have 4: "set tags_to_remove \<inter> tag_key ` dict_at h ` set (list_at h l) = {} \<longrightarrow>
           update_tags_for_resource mk acct h b arn [] tags_to_remove = (Inr (), h)"
    by (simp add: update_tags_result [OF assms] foldl_remove_tag_absent)
  have 5: "list_tags_for_resource mk acct b arn = Inr (arn, Some l)"
    using assms by (simp add: list_tags_for_resource_def)
  show ?thesis
    by (rule conjI [OF 1 conjI [OF 5 conjI [OF 2 conjI [OF 3 4]]]])
qed

theorem update_tags_remove_witness:
  "find_environment_by_arn example_arn example_account backend1
       ''arn:us-east-1:123456789012:environment/app1/env1'' = Inr (''app1'', Some ''env1'', env1)
   \<and> tags env1 = Some 0
   \<and> tag_values heap1 0 = [\<lparr>tag_key = ''a'', tag_value = ''1''\<rparr>]
   \<and> set [''b''] \<inter> tag_key ` dict_at heap1 ` set (list_at heap1 0) = {}
   \<and> update_tags_for_resource example_arn example_account heap1 backend1
       ''arn:us-east-1:123456789012:environment/app1/env1'' [] [''b''] = (Inr (), heap1)
   \<and> fst (update_tags_for_resource example_arn example_account heap1 backend1
            ''arn:us-east-1:123456789012:environment/app1/env1'' [] [''a'']) = Inr ()
   \<and> tag_values
       (snd (update_tags_for_resource example_arn example_account heap1 backend1
               ''arn:us-east-1:123456789012:environment/app1/env1'' [] [''a''])) 0
     = []"
proof -
  have t: "tags env1 = Some 0"
    by (simp add: env1_def)
  have d: "set [''b''] \<inter> tag_key ` dict_at heap1 ` set (list_at heap1 0) = {}"
    by (simp add: heap1_def)
  have v: "tag_values heap1 0 = [\<lparr>tag_key = ''a'', tag_value = ''1''\<rparr>]"
    by (simp add: heap1_def tag_values_def)
  have a: "tag_values (remove_tag heap1 0 ''a'') 0 = []"
    by (simp add: remove_tag_def heap1_def tag_values_def)
  show ?thesis
    using update_tags_remove [OF backend1_find t, of heap1 "[]" "[''b'']",
        THEN conjunct2, THEN conjunct2, THEN conjunct2, THEN conjunct2]
      update_tags_remove [OF backend1_find t, of heap1 "[]" "[''a'']", THEN conjunct1]
      backend1_find t d v a
    by simp
qed


subsection \<open>Environments created without tags\<close>

lemma create_environment_new:
  assumes "map_of (applications b) a = Some app" and "\<not> dict_contains (environments app) e"
  shows "create_environment b a e s t =
     (Inr \<lparr>environment_name = e, solution_stack_name = s, tags = t\<rparr>,
      b\<lparr>applications :=
          AList.update a
            (app\<lparr>environments :=
                   AList.update e \<lparr>environment_name = e, solution_stack_name = s, tags = t\<rparr>
                     (environments app)\<rparr>)
            (applications b)\<rparr>)"
  using assms
  by (simp add: create_environment_def Application_create_environment_def Let_def)

lemma stored_after_create_environment:
  assumes wf: "wf_backend b"
    and look: "map_of (applications b) a = Some app"
    and new: "\<not> dict_contains (environments app) e"
    and f: "find_environment_by_arn mk acct (snd (create_environment b a e s t)) arn
              = Inr (a, e, env)"
  shows "env = \<lparr>environment_name = e, solution_stack_name = s, tags = t\<rparr>"
proof -
  let ?new = "\<lparr>environment_name = e, solution_stack_name = s, tags = t\<rparr>"
  let ?app' = "app\<lparr>environments := AList.update e ?new (environments app)\<rparr>"
  let ?b' = "snd (create_environment b a e s t)"
  have apps: "applications ?b' = AList.update a ?app' (applications b)"
    by (simp add: create_environment_new [OF look new])
  from find_environment_by_arn_Inr [OF f] obtain x where
    x: "map_of (applications ?b') a = Some x" and mem: "(e, env) \<in> set (environments x)"
    by blast
  from x have "x = ?app'" by (simp add: apps update_conv')
  with mem have in_new: "(e, env) \<in> set (AList.update e ?new (environments app))" by simp
  from look have "(a, app) \<in> set (applications b)" by (rule map_of_SomeD)
  with wf have "is_dict (environments app)" by (auto simp: wf_backend_def)
  then have "is_dict (AList.update e ?new (environments app))" by (rule is_dict_update)
  then have "map_of (AList.update e ?new (environments app)) e = Some env"
    using in_new by (rule is_dict_map_of)
  then show ?thesis by (simp add: update_conv')
qed

text \<open>
  The path of an environment is the name of its application, a slash, and its own name,
  so the environment \<open>b/c\<close> of the application \<open>a\<close> and the environment \<open>c\<close> of the
  application \<open>a/b\<close> have the same ARN, whatever \<open>make_arn\<close> does with the path.
\<close>

lemma same_path_same_arn:
  "environment_arn mk acct b \<lparr>application_name = ''a'', environments = envs\<rparr>
     \<lparr>environment_name = Some ''b/c'', solution_stack_name = s, tags = t\<rparr>
   = environment_arn mk acct b \<lparr>application_name = ''a/b'', environments = envs'\<rparr>
     \<lparr>environment_name = Some ''c'', solution_stack_name = s', tags = t'\<rparr>"
  by (simp add: environment_arn_def Environment_region_def Application_region_def
      Environment_application_name_def)

lemma backend3_before_eq:
  "backend3_before =
     \<lparr>region = ''us-east-1'',
      applications =
        [(''a'', \<lparr>application_name = ''a'',
                  environments =
                    [(Some ''b/c'', \<lparr>environment_name = Some ''b/c'',
                                      solution_stack_name = None, tags = Some 2\<rparr>)]\<rparr>),
         (''a/b'', \<lparr>application_name = ''a/b'', environments = []\<rparr>)]\<rparr>"
  by (simp add: backend3_before_def create_environment_def create_application_def
      Application_create_environment_def EBBackend_init_def dict_contains_def Let_def)

lemma backend3_eq:
  "backend3 =
     \<lparr>region = ''us-east-1'',
      applications =
        [(''a'', \<lparr>application_name = ''a'',
                  environments =
                    [(Some ''b/c'', \<lparr>environment_name = Some ''b/c'',
                                      solution_stack_name = None, tags = Some 2\<rparr>)]\<rparr>),
         (''a/b'', \<lparr>application_name = ''a/b'',
                    environments =
                      [(Some ''c'', \<lparr>environment_name = Some ''c'',
                                      solution_stack_name = None, tags = None\<rparr>)]\<rparr>)]\<rparr>"
  by (simp add: backend3_def backend3_before_eq create_environment_def
      Application_create_environment_def dict_contains_def Let_def)

lemma backend3_reachable: "reachable example_arn example_account heap1 backend3"
  unfolding backend3_def backend3_before_def by (intro reachable.intros)

text \<open>
  In \<open>backend3\<close> the environment \<open>c\<close> of the application \<open>a/b\<close> was created last, with
  the default tags. Its ARN is also the ARN of the environment \<open>b/c\<close> of the application
  \<open>a\<close>, which the lookup meets first and whose tag list is the list 2. The update on that
  ARN with the tag at reference 1 returns normally and appends the tag to list 2.
\<close>

theorem update_tags_on_default_tags_counterexample:
  "fst (create_environment backend3_before ''a/b'' (Some ''c'') None None)
     = Inr \<lparr>environment_name = Some ''c'', solution_stack_name = None, tags = None\<rparr>
   \<and> map_of (applications backend3) ''a/b''
     = Some \<lparr>application_name = ''a/b'',
              environments =
                [(Some ''c'', \<lparr>environment_name = Some ''c'',
                                solution_stack_name = None, tags = None\<rparr>)]\<rparr>
   \<and> environment_arn example_arn example_account backend3
        \<lparr>application_name = ''a/b'',
          environments =
            [(Some ''c'', \<lparr>environment_name = Some ''c'',
                            solution_stack_name = None, tags = None\<rparr>)]\<rparr>
        \<lparr>environment_name = Some ''c'', solution_stack_name = None, tags = None\<rparr>
     = ''arn:us-east-1:123456789012:environment/a/b/c''
   \<and> update_tags_for_resource example_arn example_account heap1 backend3
        ''arn:us-east-1:123456789012:environment/a/b/c'' [1] []
     = (Inr (), heap1\<lparr>list_at := (list_at heap1)(2 := [1])\<rparr>)"
proof -
  have c: "fst (create_environment backend3_before ''a/b'' (Some ''c'') None None)
     = Inr \<lparr>environment_name = Some ''c'', solution_stack_name = None, tags = None\<rparr>"
    by (simp add: backend3_before_eq create_environment_def
        Application_create_environment_def dict_contains_def Let_def)
  have m: "map_of (applications backend3) ''a/b''
     = Some \<lparr>application_name = ''a/b'',
              environments =
                [(Some ''c'', \<lparr>environment_name = Some ''c'',
                                solution_stack_name = None, tags = None\<rparr>)]\<rparr>"
    by (simp add: backend3_eq)
  have i: "environment_arn example_arn example_account backend3
        \<lparr>application_name = ''a/b'',
          environments =
            [(Some ''c'', \<lparr>environment_name = Some ''c'',
                            solution_stack_name = None, tags = None\<rparr>)]\<rparr>
        \<lparr>environment_name = Some ''c'', solution_stack_name = None, tags = None\<rparr>
     = ''arn:us-east-1:123456789012:environment/a/b/c''"
    by (simp add: backend3_eq environment_arn_def Environment_region_def Application_region_def
        Environment_application_name_def example_arn_def example_account_def)
  have f: "find_environment_by_arn example_arn example_account backend3
        ''arn:us-east-1:123456789012:environment/a/b/c''
     = Inr (''a'', Some ''b/c'',
            \<lparr>environment_name = Some ''b/c'', solution_stack_name = None, tags = Some 2\<rparr>)"
    by (simp add: backend3_eq find_environment_by_arn_def environment_arn_def
        Environment_region_def Application_region_def Environment_application_name_def
        example_arn_def example_account_def)
  have u: "update_tags_for_resource example_arn example_account heap1 backend3
        ''arn:us-east-1:123456789012:environment/a/b/c'' [1] []
     = (Inr (), heap1\<lparr>list_at := (list_at heap1)(2 := [1])\<rparr>)"
    by (simp add: update_tags_for_resource_def f add_tag_def heap1_def)
  show ?thesis by (rule conjI [OF c conjI [OF m conjI [OF i u]]])
qed

text \<open>
  C10, for an environment that its own ARN resolves to. \<open>create_environment\<close> called
  without tags stores \<^verbatim>\<open>None\<close> in the tag field of the new environment. When the ARN of
  that environment resolves to it, \<open>update_tags_for_resource\<close> on that ARN with at least
  one tag to add raises \<open>TypeError\<close>, which is neither of the two exception classes of the
  module, and changes no tag object.
\<close>

theorem update_tags_on_default_tags:
  assumes "wf_backend b"
    and "map_of (applications b) a = Some app"
    and "\<not> dict_contains (environments app) e"
    and "arn = environment_arn mk acct b app
                 \<lparr>environment_name = e, solution_stack_name = s, tags = None\<rparr>"
    and "find_environment_by_arn mk acct (snd (create_environment b a e s None)) arn
           = Inr (a, e, env)"
    and "tags_to_add \<noteq> []"
  shows "fst (create_environment b a e s None) = Inr env \<and> tags env = None
     \<and> map_of (applications (snd (create_environment b a e s None))) a
         = Some (snd (Application_create_environment app e s None))
     \<and> environment_arn mk acct (snd (create_environment b a e s None))
         (snd (Application_create_environment app e s None)) env = arn
     \<and> update_tags_for_resource mk acct h (snd (create_environment b a e s None)) arn
         tags_to_add tags_to_remove
       = (Inl TypeError, h)
     \<and> \<not> is_InvalidParameterValueError
           (fst (update_tags_for_resource mk acct h (snd (create_environment b a e s None)) arn
                   tags_to_add tags_to_remove))
     \<and> \<not> is_ResourceNotFoundException
           (fst (update_tags_for_resource mk acct h (snd (create_environment b a e s None)) arn
                   tags_to_add tags_to_remove))"
proof -
  let ?b' = "snd (create_environment b a e s None)"
  let ?app' = "snd (Application_create_environment app e s None)"
  have env: "env = \<lparr>environment_name = e, solution_stack_name = s, tags = None\<rparr>"
    using assms(1,2,3,5) by (rule stored_after_create_environment)
  have r: "fst (create_environment b a e s None) = Inr env"
    by (simp add: create_environment_new [OF assms(2,3)] env)
  have t: "tags env = None" by (simp add: env)
  have m: "map_of (applications ?b') a = Some ?app'"
    using assms(2) by (simp add: create_environment_def update_conv' split: prod.splits)
  have n: "application_name ?app' = application_name app"
    by (simp add: Application_create_environment_def Let_def)
  have "region ?b' = region b"
    using assms(2) by (simp add: create_environment_def split: prod.splits)
  then have i: "environment_arn mk acct ?b' ?app' env = arn"
    unfolding assms(4) using n by (rule environment_arn_cong) (simp add: env)
  have u: "update_tags_for_resource mk acct h ?b' arn tags_to_add tags_to_remove = (Inl TypeError, h)"
    using assms(5) t by (rule update_tags_None) (simp add: assms(6))
  show ?thesis using r t m i u by simp
qed

theorem update_tags_on_default_tags_witness:
  "wf_backend backend1
   \<and> map_of (applications backend1) ''app1'' = Some app1
   \<and> \<not> dict_contains (environments app1) (Some ''env2'')
   \<and> ''arn:us-east-1:123456789012:environment/app1/env2''
       = environment_arn example_arn example_account backend1 app1
           \<lparr>environment_name = Some ''env2'', solution_stack_name = None, tags = None\<rparr>
   \<and> find_environment_by_arn example_arn example_account
        (snd (create_environment backend1 ''app1'' (Some ''env2'') None None))
        ''arn:us-east-1:123456789012:environment/app1/env2''
       = Inr (''app1'', Some ''env2'', env2)
   \<and> fst (create_environment backend1 ''app1'' (Some ''env2'') None None) = Inr env2
   \<and> update_tags_for_resource example_arn example_account heap1
        (snd (create_environment backend1 ''app1'' (Some ''env2'') None None))
        ''arn:us-east-1:123456789012:environment/app1/env2'' [1] []
       = (Inl TypeError, heap1)"
proof -
  have l: "map_of (applications backend1) ''app1'' = Some app1"
    by (simp add: backend1_def)
  have n: "\<not> dict_contains (environments app1) (Some ''env2'')"
    by (simp add: app1_def dict_contains_def)
  have i: "''arn:us-east-1:123456789012:environment/app1/env2''
       = environment_arn example_arn example_account backend1 app1
           \<lparr>environment_name = Some ''env2'', solution_stack_name = None, tags = None\<rparr>"
    by (simp add: backend1_def app1_def environment_arn_def Environment_region_def
        Application_region_def Environment_application_name_def example_arn_def
        example_account_def)
  have f: "find_environment_by_arn example_arn example_account
        (snd (create_environment backend1 ''app1'' (Some ''env2'') None None))
        ''arn:us-east-1:123456789012:environment/app1/env2''
       = Inr (''app1'', Some ''env2'', env2)"
    using backend2_find by (simp add: backend2_def)
  have ne: "[1::nat] \<noteq> []" by simp
  show ?thesis
    using update_tags_on_default_tags [OF backend1_wf l n i f ne, of heap1 "[]"]
      backend1_wf l n i f
    by simp
qed

subsection \<open>Creating environments\<close>

text \<open>
  On a registry without applications, \<open>create_environment\<close> for the application
  \<open>app1\<close> raises \<open>InvalidParameterValueError\<close>, the class that also reports a name
  already taken, and not \<open>ResourceNotFoundException\<close>.
\<close>

theorem create_environment_unknown_application_counterexample:
  "\<not> is_ResourceNotFoundException
       (fst (create_environment (EBBackend_init ''us-east-1'') ''app1'' (Some ''env1'') None None))
   \<and> is_InvalidParameterValueError
       (fst (create_environment (EBBackend_init ''us-east-1'') ''app1'' (Some ''env1'') None None))"
  by (simp add: create_environment_def EBBackend_init_def)

text \<open>
  C3, as the code has it. When the application name is not registered,
  \<open>create_environment\<close> raises \<open>InvalidParameterValueError\<close> with the message
  ``No Application named '...' found.'' and leaves the registry as it was. When it is
  registered, the outcome is the outcome of that application's own \<open>create_environment\<close>,
  whose application is stored back under the same name; its \<open>InvalidParameterValueError\<close>
  for an environment name already taken comes through as raised, with the registry
  unchanged.
\<close>

theorem create_environment_delegates:
  "(map_of (applications b) a = None \<longrightarrow>
      create_environment b a e s t =
        (Inl (InvalidParameterValueError
                (Some (''No Application named '' @ [CHR 0x27] @ a @ [CHR 0x27] @ '' found.''))), b))
   \<and> (\<forall>app. map_of (applications b) a = Some app \<longrightarrow>
        fst (create_environment b a e s t) = fst (Application_create_environment app e s t)
        \<and> snd (create_environment b a e s t) =
            b\<lparr>applications :=
                AList.update a (snd (Application_create_environment app e s t)) (applications b)\<rparr>
        \<and> (dict_contains (environments app) e \<longrightarrow>
             create_environment b a e s t = (Inl (InvalidParameterValueError None), b)))"
  by (auto simp: create_environment_def Application_create_environment_def update_triv
      split: prod.splits)

theorem create_environment_delegates_witness:
  "map_of (applications (EBBackend_init ''us-east-1'')) ''app1'' = None
   \<and> create_environment (EBBackend_init ''us-east-1'') ''app1'' (Some ''env1'') None None =
       (Inl (InvalidParameterValueError (Some ''No Application named 'app1' found.'')),
        EBBackend_init ''us-east-1'')
   \<and> map_of (applications backend1) ''app1'' = Some app1
   \<and> dict_contains (environments app1) (Some ''env1'')
   \<and> create_environment backend1 ''app1'' (Some ''env1'') None None =
       (Inl (InvalidParameterValueError None), backend1)"
  using create_environment_delegates [where b = "EBBackend_init ''us-east-1''" and a = "''app1''"
      and e = "Some ''env1''" and s = None and t = None]
    create_environment_delegates [where b = backend1 and a = "''app1''"
      and e = "Some ''env1''" and s = None and t = None]
  by (simp add: EBBackend_init_def backend1_def app1_def dict_contains_def)

text \<open>
  C4, at an input where the code falls short of it. \<open>backend1\<close> holds the application
  \<open>app1\<close> with the environment \<open>env1\<close>. Creating \<open>env1\<close> under \<open>app1\<close> again raises
  \<open>InvalidParameterValueError\<close> without any message, so the exception does not carry the
  name; \<open>create_application\<close> on a name already taken does put the name in its message.
\<close>

theorem create_environment_duplicate_carries_no_name:
  "create_environment backend1 ''app1'' (Some ''env1'') None None
     = (Inl (InvalidParameterValueError None), backend1)
   \<and> fst (create_application backend1 ''app1'')
     = Inl (InvalidParameterValueError (Some ''Application app1 already exists.''))"
  by (simp add: create_environment_def Application_create_environment_def create_application_def
      dict_contains_def backend1_def app1_def)

text \<open>
  The rest of C4 holds: the second creation under the same application fails and changes
  nothing, and the same environment name under another registered application that does
  not have it yet is accepted.
\<close>

lemma create_environment_twice:
  assumes "map_of (applications b) a = Some app"
  shows "create_environment (snd (create_environment b a e s t)) a e s' t'
           = (Inl (InvalidParameterValueError None), snd (create_environment b a e s t))"
proof -
  let ?b1 = "snd (create_environment b a e s t)"
  let ?app1 = "snd (Application_create_environment app e s t)"
  have l: "map_of (applications ?b1) a = Some ?app1"
    using assms by (simp add: create_environment_def update_conv' split: prod.splits)
  have c: "dict_contains (environments ?app1) e"
    by (simp add: Application_create_environment_def dict_contains_def update_conv' Let_def)
  show ?thesis
    using l c
    by (simp add: create_environment_def Application_create_environment_def update_triv)
qed

lemma create_environment_other_application:
  assumes "map_of (applications b) a = Some app" and "a2 \<noteq> a"
    and "map_of (applications b) a2 = Some app2" and "\<not> dict_contains (environments app2) e"
  shows "fst (create_environment (snd (create_environment b a e s t)) a2 e s' t')
           = Inr \<lparr>environment_name = e, solution_stack_name = s', tags = t'\<rparr>"
proof -
  let ?b1 = "snd (create_environment b a e s t)"
  have l: "map_of (applications ?b1) a2 = Some app2"
    using assms(1,2,3) by (simp add: create_environment_def update_conv' split: prod.splits)
  show ?thesis
    using l assms(4)
    by (simp add: create_environment_def Application_create_environment_def Let_def)
qed

end
